theory Spec2Isabelle
  imports Main
begin

section \<open>JavaScript values and string operations\<close>

text \<open>
  A JavaScript value that may be \<^verbatim>\<open>undefined\<close> is an \<open>option\<close>, \<open>None\<close> being
  \<^verbatim>\<open>undefined\<close>. Strings are lists of characters; the operations below are the
  \<^verbatim>\<open>String.prototype\<close> methods the generator calls, on ASCII text.
\<close>

definition truthy_str :: "string option \<Rightarrow> bool" where
  "truthy_str v = (case v of None \<Rightarrow> False | Some s \<Rightarrow> s \<noteq> [])"

definition truthy_bool :: "bool option \<Rightarrow> bool" where
  "truthy_bool v = (case v of None \<Rightarrow> False | Some b \<Rightarrow> b)"

definition or_str :: "string option \<Rightarrow> string option \<Rightarrow> string option" where
  "or_str x y = (if truthy_str x then x else y)"

definition or_bool :: "bool option \<Rightarrow> bool option \<Rightarrow> bool option" where
  "or_bool x y = (if truthy_bool x then x else y)"

fun indexOf :: "string \<Rightarrow> string \<Rightarrow> int" where
  "indexOf [] p = (if p = [] then 0 else - 1)"
| "indexOf (c # s) p =
     (if take (length p) (c # s) = p then 0
      else (let r = indexOf s p in if r < 0 then - 1 else r + 1))"

definition endsWith :: "string \<Rightarrow> string \<Rightarrow> bool" where
  "endsWith s p = (length p \<le> length s \<and> drop (length s - length p) s = p)"

definition substr :: "string \<Rightarrow> int \<Rightarrow> int \<Rightarrow> string" where
  "substr s a l =
     (let n = int (length s);
          a' = (if a < 0 then max 0 (n + a) else min a n)
      in take (nat l) (drop (nat a') s))"

definition substring :: "string \<Rightarrow> int \<Rightarrow> int option \<Rightarrow> string" where
  "substring s a b =
     (let n = int (length s);
          a' = max 0 (min a n);
          b' = (case b of None \<Rightarrow> n | Some e \<Rightarrow> max 0 (min e n));
          lo = min a' b';
          hi = max a' b'
      in take (nat (hi - lo)) (drop (nat lo) s))"

definition lower_char :: "char \<Rightarrow> char" where
  "lower_char c =
     (case map_of (zip ''ABCDEFGHIJKLMNOPQRSTUVWXYZ'' ''abcdefghijklmnopqrstuvwxyz'') c of
        None \<Rightarrow> c | Some l \<Rightarrow> l)"

definition toLocaleLowerCase :: "string \<Rightarrow> string" where
  "toLocaleLowerCase s = map lower_char s"

fun split_on :: "char \<Rightarrow> string \<Rightarrow> string list" where
  "split_on d [] = [[]]"
| "split_on d (c # s) =
     (if c = d then [] # split_on d s
      else (case split_on d s of [] \<Rightarrow> [[c]] | w # ws \<Rightarrow> (c # w) # ws))"

fun join_with :: "string \<Rightarrow> string list \<Rightarrow> string" where
  "join_with d [] = []"
| "join_with d [w] = w"
| "join_with d (w # ws) = w @ d @ join_with d ws"

section \<open>Data model of the generator\<close>

text \<open>The manifest read from \<^verbatim>\<open>./src/manifest/manifest.json\<close>: the fields the generator reads.\<close>

record Manifest =
  m_schema :: "string option"
  m_manifestVersion :: string
  m_name_short :: string
  m_developer_name :: string
  m_developer_websiteUrl :: string

text \<open>
  \<^verbatim>\<open>GeneratorTeamsAppOptions\<close>: the flat options object. The fields \<open>id'\<close> and \<open>bot'\<close> are
  the source's \<^verbatim>\<open>id\<close> and \<^verbatim>\<open>bot\<close>.
\<close>

record ProjectOptions =
  telemetry :: bool
  existingManifest :: "Manifest option"
  namespace :: "string option"
  solutionName :: "string option"
  name :: "string option"
  title :: "string option"
  description :: "string option"
  shouldUseSubDir :: bool
  libraryName :: "string option"
  packageName :: "string option"
  developer :: "string option"
  host :: "string option"
  hostname :: "string option"
  manifestVersion :: "string option"
  mpnId :: "string option"
  id' :: "string option"
  websitePrefix :: "string option"
  quickScaffolding :: "bool option"
  showLoadingIndicator :: "bool option"
  isFullScreen :: "bool option"
  unitTestsEnabled :: "bool option"
  lintingSupport :: "bool option"
  useAzureAppInsights :: "bool option"
  azureAppInsightsKey :: "string option"
  updateManifestVersion :: "bool option"
  updateBuildSystem :: "bool option"
  bot' :: "bool option"
  tab :: "bool option"
  connector :: "bool option"
  customBot :: "bool option"
  messageExtension :: "bool option"
  localization :: "bool option"
  reactComponents :: "bool option"
  staticTab :: "bool option"
  tabSSO :: "bool option"
  botType :: "string option"
  botFilesEnabled :: "bool option"
  messagingExtensionType :: "string option"
  messagingExtensionActionContext :: "string list option"
  messagingExtensionActionInputType :: "string option"
  messagingExtensionActionResponseType :: "string option"
  messagingExtensionCanUpdateConfiguration :: "bool option"
  messagingExtensionActionResponseTypeConfig :: "bool option"
  defaultLanguage :: "string option"
  additionalLanguage :: "string option"

text \<open>\<^verbatim>\<open>IAnswers\<close>: a question that was not asked leaves its answer undefined.\<close>

record Answers =
  a_confirmedAdd :: "bool option"
  a_solutionName :: "string option"
  a_whichFolder :: "string option"
  a_name :: "string option"
  a_developer :: "string option"
  a_updateManifestVersion :: "bool option"
  a_manifestVersion :: "string option"
  a_mpnId :: "string option"
  a_parts :: "string list option"
  a_host :: "string option"
  a_unitTestsEnabled :: "bool option"
  a_lintingSupport :: "bool option"
  a_useAzureAppInsights :: "bool option"
  a_azureAppInsightsKey :: "string option"
  a_updateBuildSystem :: "bool option"
  a_showLoadingIndicator :: "bool option"
  a_isFullScreen :: "bool option"
  a_quickScaffolding :: "bool option"

text \<open>What the operator enters at each question, should it be asked.\<close>

record Operator =
  u_confirmedAdd :: bool
  u_solutionName :: string
  u_whichFolder :: string
  u_name :: string
  u_developer :: string
  u_updateManifestVersion :: bool
  u_manifestVersion :: string
  u_mpnId :: string
  u_parts :: "string list"
  u_host :: string
  u_unitTestsEnabled :: bool
  u_lintingSupport :: bool
  u_useAzureAppInsights :: bool
  u_azureAppInsightsKey :: string
  u_updateBuildSystem :: bool
  u_showLoadingIndicator :: bool
  u_isFullScreen :: bool
  u_quickScaffolding :: bool

text \<open>The project-local configuration store (\<^verbatim>\<open>this.config\<close>), by key.\<close>

record Config =
  generator_version :: "string option"
  cfg_libraryName :: "string option"
  cfg_useAzureAppInsights :: "bool option"
  cfg_unitTestsEnabled :: "bool option"

text \<open>File-system effects of the write phase, in the order they are issued.\<close>

datatype fs_op =
    WriteJSON string string
  | CopyTpl string string
  | Copy string string
  | AddAdditionalDevDeps "(string \<times> string) list"
  | AddAdditionalDeps "(string \<times> string) list"
  | AddScript string string
  | AddNode string "string list"

text \<open>Calls on the telemetry client \<^verbatim>\<open>AppInsights.defaultClient\<close>, in the order they are made.\<close>

datatype ai_call =
    TrackEvent string "(string \<times> string option) list"
  | TrackException string "string option"
  | Flush

record VersionInfo =
  v_manifestVersion :: string
  v_hide :: bool
  v_comment :: "string option"
  v_default :: bool

record Choice =
  c_name :: string
  c_value :: string
  c_default :: bool

text \<open>
  The collaborators that are not part of the generator's own file, and the process
  environment: the package version, the opt-out variable, the manifest generator factory,
  lodash's \<^verbatim>\<open>camelCase\<close>, the state of the identifier source when the run starts, the
  configuration store found at a destination root, the library name found in
  the webpack configuration, the \<^verbatim>\<open>name\<close> of \<^verbatim>\<open>./package.json\<close> (\<open>None\<close> when the file cannot be
  read), the core-files updater factory (an updater returns its result and the file
  operations it issued), and the file-name and manifest renderers.
\<close>

record Env =
  pkg_version :: string
  YOTEAMS_TELEMETRY_OPTOUT :: "string option"
  isSchemaVersionValid :: "Manifest option \<Rightarrow> bool"
  supportedManifestVersions :: "VersionInfo list"
  supportsUpdateManifest :: "string \<Rightarrow> string \<Rightarrow> bool"
  getManifestVersionFromValue :: "string \<Rightarrow> string option"
  camelCase :: "string option \<Rightarrow> string"
  uuid_source :: nat
  getStorage :: "string option \<Rightarrow> Config"
  getLibraryNameFromWebpackConfig :: "string option"
  package_json_name :: "string option option"
  createCoreFilesUpdater :: "string \<Rightarrow> (ProjectOptions \<Rightarrow> bool \<times> fs_op list) option"
  fixFileNames :: "string \<Rightarrow> ProjectOptions \<Rightarrow> string"
  generateManifest :: "string option \<Rightarrow> ProjectOptions \<Rightarrow> string"
  updateManifest :: "string option \<Rightarrow> Manifest \<Rightarrow> string"

text \<open>The state a run threads through its phases.\<close>

record State =
  options :: ProjectOptions
  config :: Config
  fs_ops :: "fs_op list"
  ai_setup :: bool
  ai_calls :: "ai_call list"
  destinationRoot :: "string option"
  uuid_next :: nat

text \<open>
  A phase continues with a new state, ends the process with \<^verbatim>\<open>process.exit(n)\<close>, or throws
  a \<^verbatim>\<open>TypeError\<close> on reading a property of \<^verbatim>\<open>undefined\<close>.
\<close>

datatype result = Continue State | Exit nat State | Threw State

definition bind_result :: "result \<Rightarrow> (State \<Rightarrow> result) \<Rightarrow> result" where
  "bind_result r f = (case r of Continue st \<Rightarrow> f st | _ \<Rightarrow> r)"

text \<open>
  The telemetry client \<^verbatim>\<open>AppInsights.defaultClient\<close> exists once \<^verbatim>\<open>AppInsights.setup\<close> has run,
  which \<open>ai_setup\<close> records. Before that it is undefined, and a call on it throws a
  \<^verbatim>\<open>TypeError\<close>; a call on the client that exists is recorded in \<open>ai_calls\<close>.
\<close>

definition track :: "ai_call list \<Rightarrow> State \<Rightarrow> result" where
  "track cs st =
     (if ai_setup st then Continue (st\<lparr>ai_calls := ai_calls st @ cs\<rparr>) else Threw st)"

definition write_ops :: "fs_op list \<Rightarrow> State \<Rightarrow> State" where
  "write_ops ops st = st\<lparr>fs_ops := fs_ops st @ ops\<rparr>"

section \<open>The generator's phases\<close>

subsection \<open>\<^verbatim>\<open>constructor\<close>\<close>

text \<open>
  The arguments and the \<^verbatim>\<open>telemetry\<close> flag of the command line that this file reads back
  from \<^verbatim>\<open>this.options\<close>; every other field of the options starts undefined.
\<close>

record Args =
  arg_solutionName :: "string option"
  arg_name :: "string option"
  arg_developer :: "string option"
  arg_manifestVersion :: "string option"
  arg_quickScaffolding :: "bool option"
  arg_host :: "string option"
  arg_showLoadingIndicator :: "bool option"
  arg_tabSSO :: "bool option"
  arg_telemetry :: bool

definition initial_options :: "Args \<Rightarrow> ProjectOptions" where
  "initial_options args =
     \<lparr>telemetry = arg_telemetry args,
      existingManifest = None,
      namespace = Some ''teams'',
      solutionName = arg_solutionName args,
      name = arg_name args,
      title = None,
      description = None,
      shouldUseSubDir = False,
      libraryName = None,
      packageName = None,
      developer = arg_developer args,
      host = arg_host args,
      hostname = None,
      manifestVersion = arg_manifestVersion args,
      mpnId = None,
      id' = None,
      websitePrefix = None,
      quickScaffolding = arg_quickScaffolding args,
      showLoadingIndicator = arg_showLoadingIndicator args,
      isFullScreen = None,
      unitTestsEnabled = None,
      lintingSupport = None,
      useAzureAppInsights = None,
      azureAppInsightsKey = None,
      updateManifestVersion = None,
      updateBuildSystem = None,
      bot' = None,
      tab = None,
      connector = None,
      customBot = None,
      messageExtension = None,
      localization = None,
      reactComponents = None,
      staticTab = None,
      tabSSO = arg_tabSSO args,
      botType = None,
      botFilesEnabled = None,
      messagingExtensionType = None,
      messagingExtensionActionContext = None,
      messagingExtensionActionInputType = None,
      messagingExtensionActionResponseType = None,
      messagingExtensionCanUpdateConfiguration = None,
      messagingExtensionActionResponseTypeConfig = None,
      defaultLanguage = None,
      additionalLanguage = None\<rparr>"

definition optout :: "Env \<Rightarrow> bool" where
  "optout env =
     (YOTEAMS_TELEMETRY_OPTOUT env = Some ''1'' \<or> YOTEAMS_TELEMETRY_OPTOUT env = Some ''true'')"

text \<open>
  \<open>mf\<close> is the manifest file if there is one, \<open>cfg\<close> the stored configuration. The telemetry
  client is set up, and the first event sent, when telemetry is on and the opt-out variable
  is not set.
\<close>

definition constructor :: "Env \<Rightarrow> Args \<Rightarrow> Manifest option \<Rightarrow> Config \<Rightarrow> State" where
  "constructor env args mf cfg =
     (let st0 = \<lparr>options = initial_options args, config = cfg, fs_ops = [], ai_setup = False,
                 ai_calls = [], destinationRoot = None, uuid_next = uuid_source env\<rparr>;
          st1 = (if telemetry (options st0) \<and> \<not> optout env
                 then st0\<lparr>ai_setup := True, ai_calls := [TrackEvent ''start-generator'' []]\<rparr>
                 else st0)
      in st1\<lparr>options := (options st1)\<lparr>existingManifest := mf\<rparr>\<rparr>)"

subsection \<open>\<^verbatim>\<open>initializing\<close>\<close>

definition initializing :: "Env \<Rightarrow> State \<Rightarrow> result" where
  "initializing env st =
     (let opts = options st in
      if \<not> isSchemaVersionValid env (existingManifest opts) then
        (if telemetry opts then
           bind_result (track [TrackEvent ''rerun-generator'' []] st) (\<lambda>st1.
             case existingManifest opts of
               None \<Rightarrow> Threw st1
             | Some m \<Rightarrow>
                 bind_result
                   (track [TrackException ''Invalid schema'' (m_schema m), Flush] st1)
                   (\<lambda>st2. Exit 1 st2))
         else Exit 1 st)
      else Continue st)"

subsection \<open>\<^verbatim>\<open>prompting\<close>: the questions\<close>

definition versions :: "Env \<Rightarrow> ProjectOptions \<Rightarrow> Choice list" where
  "versions env opts =
     map (\<lambda>v. \<lparr>c_name = v_manifestVersion v @
                         (case v_comment v of None \<Rightarrow> [] | Some c \<Rightarrow>
                            (if c = [] then [] else '' ('' @ c @ '')'')),
                c_value = v_manifestVersion v,
                c_default = v_default v\<rparr>)
       (filter (\<lambda>v. case existingManifest opts of
                       Some m \<Rightarrow> supportsUpdateManifest env (v_manifestVersion v) (m_manifestVersion m)
                     | None \<Rightarrow> \<not> v_hide v)
          (supportedManifestVersions env))"

definition ask :: "bool \<Rightarrow> 'a \<Rightarrow> 'a option" where
  "ask when v = (if when then Some v else None)"

text \<open>
  The question series: each question is asked when its \<^verbatim>\<open>when\<close> holds, in the order of the
  source, a later \<^verbatim>\<open>when\<close> reading the earlier answers.
\<close>

definition prompt :: "Env \<Rightarrow> State \<Rightarrow> Operator \<Rightarrow> Answers" where
  "prompt env st u =
     (let opts = options st;
          existing = (existingManifest opts \<noteq> None);
          vs = versions env opts;
          generatorVersion =
            (if truthy_str (generator_version (config st)) then generator_version (config st)
             else Some ''3.0.0'');
          confirmedAdd = ask existing (u_confirmedAdd u);
          updateBuildSystem' =
            ask (existing \<and> truthy_str generatorVersion \<and> generatorVersion \<noteq> Some (pkg_version env)
                 \<and> confirmedAdd = Some True) (u_updateBuildSystem u);
          solutionName' = ask (\<not> (truthy_str (solutionName opts) \<or> existing)) (u_solutionName u);
          whichFolder = ask (\<not> (truthy_str (solutionName opts) \<or> existing)) (u_whichFolder u);
          name' = ask (\<not> (truthy_str (name opts) \<or> existing)) (u_name u);
          developer' = ask (\<not> (truthy_str (developer opts) \<or> existing)) (u_developer u);
          updateManifestVersion' =
            ask (existing \<and> length vs > 0 \<and> confirmedAdd \<noteq> Some False) (u_updateManifestVersion u);
          manifestVersion' =
            ask ((existing \<and> truthy_bool updateManifestVersion' \<and> length vs > 0)
                 \<or> \<not> (truthy_str (manifestVersion opts) \<or> existing)) (u_manifestVersion u);
          quickScaffolding' =
            ask (\<not> (truthy_bool (quickScaffolding opts) \<or> existing)) (u_quickScaffolding u);
          mpnId' = ask (\<not> truthy_bool quickScaffolding' \<and> \<not> existing) (u_mpnId u);
          parts = ask (confirmedAdd \<noteq> Some False \<or> \<not> truthy_bool (tab opts)) (u_parts u);
          host' = ask (\<not> existing \<or> \<not> truthy_str (host opts)) (u_host u);
          showLoadingIndicator' =
            ask (\<not> existing \<or> \<not> truthy_bool (showLoadingIndicator opts)) (u_showLoadingIndicator u);
          isFullScreen' = ask (\<not> truthy_bool quickScaffolding' \<and> \<not> existing) (u_isFullScreen u);
          unitTestsEnabled' =
            ask (\<not> existing \<and> \<not> truthy_bool quickScaffolding') (u_unitTestsEnabled u);
          lintingSupport' =
            ask (\<not> existing \<and> \<not> truthy_bool quickScaffolding') (u_lintingSupport u);
          useAzureAppInsights' =
            ask (\<not> existing \<and> \<not> truthy_bool quickScaffolding') (u_useAzureAppInsights u);
          azureAppInsightsKey' = ask (truthy_bool useAzureAppInsights') (u_azureAppInsightsKey u)
      in \<lparr>a_confirmedAdd = confirmedAdd,
          a_solutionName = solutionName',
          a_whichFolder = whichFolder,
          a_name = name',
          a_developer = developer',
          a_updateManifestVersion = updateManifestVersion',
          a_manifestVersion = manifestVersion',
          a_mpnId = mpnId',
          a_parts = parts,
          a_host = host',
          a_unitTestsEnabled = unitTestsEnabled',
          a_lintingSupport = lintingSupport',
          a_useAzureAppInsights = useAzureAppInsights',
          a_azureAppInsightsKey = azureAppInsightsKey',
          a_updateBuildSystem = updateBuildSystem',
          a_showLoadingIndicator = showLoadingIndicator',
          a_isFullScreen = isFullScreen',
          a_quickScaffolding = quickScaffolding'\<rparr>)"

text \<open>The validators of the developer and partner-id questions.\<close>

definition validate_developer :: "string \<Rightarrow> bool" where
  "validate_developer input = (length input > 0 \<and> length input \<le> 32)"

definition validate_mpnId :: "string \<Rightarrow> bool" where
  "validate_mpnId input = (length input \<le> 10)"

subsection \<open>\<^verbatim>\<open>prompting\<close>: resolving the answers into options\<close>

text \<open>What \<^verbatim>\<open>this.desc\<close> stored in the constructor and \<^verbatim>\<open>this.description\<close> reads back.\<close>

definition generator_description :: string where
  "generator_description = ''Generate a Microsoft Teams application.''"

text \<open>The hexadecimal numeral of a number.\<close>

definition hex_digit :: "nat \<Rightarrow> char" where
  "hex_digit n = ''0123456789abcdef'' ! n"

fun hex :: "nat \<Rightarrow> string" where
  "hex n = (if n < 16 then [hex_digit n] else hex (n div 16) @ [hex_digit (n mod 16)])"

declare hex.simps [simp del]

text \<open>
  Modelled from the spec: the generator of identifiers \<^verbatim>\<open>uuid()\<close>, which is not part of the
  repository. A fresh unique identifier is generated for the app id: the source numbers
  the identifiers it issues, the identifier of a number is its hexadecimal numeral, and a
  call returns the identifier of the next number, which is then used up.
\<close>

definition uuid :: "nat \<Rightarrow> string \<times> nat" where
  "uuid source = (hex source, Suc source)"

text \<open>
  The branch for new projects. \<^verbatim>\<open>this.destinationRoot\<close> with a path, called when the files go
  to a sub folder, replaces \<^verbatim>\<open>this.config\<close> by the store of the new root. \<^verbatim>\<open>answers.host.endsWith\<close>
  throws when there is no host answer.
\<close>

definition prompting_new :: "Env \<Rightarrow> Answers \<Rightarrow> State \<Rightarrow> result" where
  "prompting_new env answers st =
     (case a_host answers of
        None \<Rightarrow> Threw st
      | Some host0 \<Rightarrow>
          (let opts = options st;
               answers_host =
                 (if endsWith host0 ''/'' then substr host0 0 (int (length host0) - 1) else host0);
               solutionName' = or_str (solutionName opts) (a_solutionName answers);
               shouldUseSubDir' = (a_whichFolder answers = Some ''subdir'');
               libraryName' = camelCase env solutionName';
               tmp = substring answers_host (indexOf answers_host ''://'' + 3) None;
               mpnId0 = a_mpnId answers;
               mpnId' = (if truthy_str mpnId0 \<and> map_option length mpnId0 = Some 0 then None
                         else mpnId0);
               arr = split_on CHR ''.'' tmp;
               websitePrefix' =
                 (if indexOf answers_host ''azurewebsites.net'' \<ge> 0
                  then substring answers_host (indexOf answers_host ''://'' + 3)
                         (Some (indexOf answers_host ''.''))
                  else ''[your Azure web app name]'');
               opts' = opts\<lparr>
                 title := a_name answers,
                 description := Some generator_description,
                 solutionName := solutionName',
                 shouldUseSubDir := shouldUseSubDir',
                 libraryName := Some libraryName',
                 packageName := Some (toLocaleLowerCase libraryName'),
                 developer := a_developer answers,
                 host := Some answers_host,
                 hostname := Some (toLocaleLowerCase tmp),
                 manifestVersion := a_manifestVersion answers,
                 mpnId := mpnId',
                 namespace := Some (toLocaleLowerCase (join_with ''.'' (rev arr))),
                 id' := Some (fst (uuid (uuid_next st))),
                 websitePrefix := Some websitePrefix',
                 showLoadingIndicator := a_showLoadingIndicator answers,
                 isFullScreen := a_isFullScreen answers,
                 unitTestsEnabled := a_unitTestsEnabled answers,
                 lintingSupport := or_bool (a_quickScaffolding answers) (a_lintingSupport answers),
                 useAzureAppInsights := a_useAzureAppInsights answers,
                 azureAppInsightsKey := a_azureAppInsightsKey answers\<rparr>
           in Continue (st\<lparr>
                options := opts',
                config :=
                  (if shouldUseSubDir' then getStorage env solutionName'
                   else (config st)\<lparr>cfg_libraryName := Some libraryName'\<rparr>),
                destinationRoot := (if shouldUseSubDir' then solutionName' else destinationRoot st),
                uuid_next := snd (uuid (uuid_next st))\<rparr>)))"

text \<open>
  The branch for existing projects. \<^verbatim>\<open>pkg.name\<close> throws when \<^verbatim>\<open>./package.json\<close> cannot be
  read.
\<close>

definition resolve_libraryName :: "Env \<Rightarrow> State \<Rightarrow> string option option" where
  "resolve_libraryName env st =
     (let libraryName1 = getLibraryNameFromWebpackConfig env in
      if truthy_str libraryName1 then Some libraryName1
      else (let libraryName2 = cfg_libraryName (config st) in
            if truthy_str libraryName2 then Some libraryName2
            else package_json_name env))"

definition prompting_existing :: "Env \<Rightarrow> Manifest \<Rightarrow> Answers \<Rightarrow> State \<Rightarrow> result" where
  "prompting_existing env m answers st =
     (let opts = options st;
          opts1 = opts\<lparr>
            developer := Some (m_developer_name m),
            title := Some (m_name_short m),
            hostname := Some [],
            useAzureAppInsights := or_bool (cfg_useAzureAppInsights (config st)) (Some False),
            unitTestsEnabled := or_bool (cfg_unitTestsEnabled (config st)) (Some False)\<rparr>
      in case resolve_libraryName env st of
           None \<Rightarrow> Threw (st\<lparr>options := opts1\<rparr>)
         | Some libraryName' \<Rightarrow>
             Continue (st\<lparr>options := opts1\<lparr>
               libraryName := libraryName',
               host := Some (m_developer_websiteUrl m),
               updateManifestVersion := a_updateManifestVersion answers,
               manifestVersion :=
                 (if truthy_str (a_manifestVersion answers) then a_manifestVersion answers
                  else getManifestVersionFromValue env (m_manifestVersion m)),
               updateBuildSystem := a_updateBuildSystem answers\<rparr>\<rparr>))"

definition set_parts :: "Answers \<Rightarrow> ProjectOptions \<Rightarrow> ProjectOptions" where
  "set_parts answers opts =
     (let opts1 =
        (case a_parts answers of
           None \<Rightarrow> opts
         | Some parts \<Rightarrow> opts\<lparr>
             bot' := Some (''bot'' \<in> set parts),
             tab := Some (''tab'' \<in> set parts),
             connector := Some (''connector'' \<in> set parts),
             customBot := Some (''custombot'' \<in> set parts),
             messageExtension := Some (''messageextension'' \<in> set parts),
             localization := Some (''localization'' \<in> set parts)\<rparr>)
      in opts1\<lparr>reactComponents := Some False\<rparr>)"

text \<open>The callback that receives the answers.\<close>

definition prompting_then :: "Env \<Rightarrow> Answers \<Rightarrow> State \<Rightarrow> result" where
  "prompting_then env answers st =
     (if a_confirmedAdd answers = Some False then Exit 0 st
      else
        (case (case existingManifest (options st) of
                 None \<Rightarrow> prompting_new env answers st
               | Some m \<Rightarrow> prompting_existing env m answers st) of
           Continue st' \<Rightarrow> Continue (st'\<lparr>options := set_parts answers (options st')\<rparr>)
         | r \<Rightarrow> r))"

definition prompting :: "Env \<Rightarrow> Operator \<Rightarrow> State \<Rightarrow> result" where
  "prompting env u st = prompting_then env (prompt env st u) st"

subsection \<open>\<^verbatim>\<open>writing\<close>\<close>

definition templateFiles :: "string list" where
  "templateFiles =
     [''README.md'', ''gulpfile.js'', ''package.json'', ''.env'', ''src/server/server.ts'',
      ''webpack.config.js'', ''src/client/client.ts'', ''src/public/index.html'',
      ''src/public/tou.html'', ''src/public/privacy.html'']"

definition staticFiles :: "string list" where
  "staticFiles =
     [''_gitignore'', ''_vscode/launch.json'', ''src/server/tsconfig.json'',
      ''src/client/tsconfig.json'', ''src/manifest/icon-outline.png'',
      ''src/manifest/icon-color.png'', ''src/public/assets/icon.png'',
      ''src/public/styles/main.scss'', ''src/server/TeamsAppsComponents.ts'', ''Dockerfile'']"

definition unitTestFiles :: "string list" where
  "unitTestFiles =
     [''src/test/test-setup.js'', ''src/test/test-shim.js'', ''src/client/jest.config.js'',
      ''src/server/jest.config.js'']"

definition unitTestOps :: "fs_op list" where
  "unitTestOps =
     [AddAdditionalDevDeps
        [(''enzyme'', ''^3.9.0''), (''@types/enzyme'', ''^3.9.1''), (''@types/jest'', ''^27.5.0''),
         (''@types/enzyme-to-json'', ''^1.5.3''), (''enzyme-adapter-react-16'', ''^1.11.2''),
         (''enzyme-to-json'', ''^3.3.5''), (''jest'', ''^28.1.0''), (''ts-jest'', ''^28.0.2''),
         (''jest-environment-jsdom'', ''^28.1.0''), (''cheerio'', ''1.0.0-rc.10'')],
      AddScript ''test'' ''jest'',
      AddScript ''coverage'' ''jest --coverage'',
      AddNode ''jest'' [''src/client/jest.config.js'', ''src/server/jest.config.js'']]"

definition lintFiles :: "string list" where
  "lintFiles =
     [''_eslintignore'', ''_eslintrc.json'', ''src/server/.eslintrc.json'',
      ''src/client/.eslintrc.json'']"

definition lintOps :: "fs_op list" where
  "lintOps =
     [AddAdditionalDevDeps
        [(''@typescript-eslint/eslint-plugin'', ''^5.22.0''),
         (''@typescript-eslint/parser'', ''^5.22.0''), (''eslint'', ''^8.15.0''),
         (''eslint-config-standard'', ''^17.0.0''), (''eslint-plugin-import'', ''^2.22.1''),
         (''eslint-plugin-node'', ''^11.1.0''), (''eslint-plugin-promise'', ''^6.0.0''),
         (''eslint-plugin-react'', ''^7.22.0''), (''eslint-plugin-react-hooks'', ''^4.2.0''),
         (''eslint-webpack-plugin'', ''^3.0.1'')],
      AddScript ''lint'' ''eslint ./src --ext .js,.jsx,.ts,.tsx'']"

text \<open>The branch for a new project: the manifest, the templates, the optional parts, the static files.\<close>

definition writing_new :: "Env \<Rightarrow> State \<Rightarrow> State" where
  "writing_new env st =
     (let opts = options st;
          staticFiles1 = staticFiles @ (if truthy_bool (unitTestsEnabled opts) then unitTestFiles else []);
          staticFiles2 = staticFiles1 @ (if truthy_bool (lintingSupport opts) then lintFiles else [])
      in write_ops
           ([WriteJSON (fixFileNames env ''src/manifest/manifest.json'' opts)
               (generateManifest env (manifestVersion opts) opts)]
            @ map (\<lambda>t. CopyTpl t (fixFileNames env t opts)) templateFiles
            @ (if truthy_bool (unitTestsEnabled opts) then unitTestOps else [])
            @ (if truthy_bool (lintingSupport opts) then lintOps else [])
            @ map (\<lambda>t. Copy t (fixFileNames env t opts)) staticFiles2) st)"

text \<open>The update of the core files of an existing project, with its three fatal exits.\<close>

definition update_build_system :: "Env \<Rightarrow> State \<Rightarrow> result" where
  "update_build_system env st =
     (let opts = options st;
          currentVersion = generator_version (config st)
      in case (if truthy_str currentVersion then currentVersion else None) of
           None \<Rightarrow>
             bind_result
               (if telemetry opts
                then track [TrackEvent ''update-core-files-empty''
                              [(''generatorVersion'', Some (pkg_version env))]] st
                else Continue st)
               (\<lambda>st1. Exit 3 st1)
         | Some v \<Rightarrow>
             (case createCoreFilesUpdater env v of
                Some coreFilesUpdater \<Rightarrow>
                  (let (result, ops) = coreFilesUpdater opts;
                       st1 = write_ops ops st
                   in bind_result
                        (if telemetry opts
                         then track [TrackEvent ''update-core-files''
                                       [(''result'', Some (if result then ''true'' else ''false''))]] st1
                         else Continue st1)
                        (\<lambda>st2. if result = False then Exit 4 st2 else Continue st2))
              | None \<Rightarrow>
                  bind_result
                    (if telemetry opts
                     then track [TrackEvent ''update-core-files-failed''
                                   [(''currentVersion'', currentVersion),
                                    (''generatorVersion'', Some (pkg_version env))]] st
                     else Continue st)
                    (\<lambda>st1. Exit 2 st1)))"

definition writing_existing :: "Env \<Rightarrow> Manifest \<Rightarrow> State \<Rightarrow> result" where
  "writing_existing env m st =
     (case (if truthy_bool (updateBuildSystem (options st)) then update_build_system env st
            else Continue st) of
        Continue st1 \<Rightarrow>
          Continue
            (if truthy_bool (updateManifestVersion (options st1))
             then write_ops
                    [WriteJSON (fixFileNames env ''src/manifest/manifest.json'' (options st1))
                       (updateManifest env (manifestVersion (options st1)) m)] st1
             else st1)
      | r \<Rightarrow> r)"

definition writing_common :: "Env \<Rightarrow> State \<Rightarrow> State" where
  "writing_common env st =
     (let opts = options st;
          st1 = (if truthy_bool (reactComponents opts)
                 then write_ops [AddAdditionalDeps [(''msteams-react-base-component'', ''^4.0.1'')]] st
                 else st);
          st2 = (if truthy_bool (useAzureAppInsights opts)
                 then write_ops [AddAdditionalDeps [(''applicationinsights'', ''^1.3.1'')]] st1
                 else st1)
      in st2\<lparr>config := (config st2)\<lparr>generator_version := Some (pkg_version env)\<rparr>\<rparr>)"

definition writing :: "Env \<Rightarrow> State \<Rightarrow> result" where
  "writing env st =
     (case (case existingManifest (options st) of
              None \<Rightarrow> Continue (writing_new env st)
            | Some m \<Rightarrow> writing_existing env m st) of
        Continue st1 \<Rightarrow> Continue (writing_common env st1)
      | r \<Rightarrow> r)"

subsection \<open>\<^verbatim>\<open>install\<close>: usage reporting\<close>

definition bool_str :: "bool option \<Rightarrow> string option" where
  "bool_str b = Some (if truthy_bool b then ''true'' else ''false'')"

definition str_or_empty :: "string option \<Rightarrow> string option" where
  "str_or_empty s = or_str s (Some [])"

definition when_opt :: "bool option \<Rightarrow> ai_call list \<Rightarrow> ai_call list" where
  "when_opt b cs = (if truthy_bool b then cs else [])"

text \<open>The events up to the manifest-update event, and those after it.\<close>

definition install_events_before :: "ProjectOptions \<Rightarrow> ai_call list" where
  "install_events_before opts =
     (if existingManifest opts \<noteq> None then [TrackEvent ''rerun-generator'' []] else [])
     @ [TrackEvent ''end-generator'' []]
     @ when_opt (bot' opts)
         [TrackEvent ''bot'' [(''type'', botType opts), (''files'', bool_str (botFilesEnabled opts))],
          (if botType opts = Some ''existing'' then TrackEvent ''bot-existing'' []
           else TrackEvent ''bot-new'' [])]
     @ when_opt (messageExtension opts)
         [TrackEvent ''messageExtension''
            [(''type'', messagingExtensionType opts),
             (''context'',
                (case messagingExtensionActionContext opts of
                   None \<Rightarrow> Some [] | Some ctx \<Rightarrow> Some (join_with '';'' ctx))),
             (''input'', str_or_empty (messagingExtensionActionInputType opts)),
             (''response'', str_or_empty (messagingExtensionActionResponseType opts)),
             (''canUpdateConfiguration'', bool_str (messagingExtensionCanUpdateConfiguration opts)),
             (''inputConfig'', bool_str (messagingExtensionActionResponseTypeConfig opts))]]
     @ when_opt (connector opts) [TrackEvent ''connector'' []]
     @ when_opt (customBot opts) [TrackEvent ''outgoingWebhook'' []]
     @ when_opt (staticTab opts) [TrackEvent ''staticTab'' []]
     @ when_opt (tab opts) [TrackEvent ''tab'' []]
     @ when_opt (unitTestsEnabled opts) [TrackEvent ''unitTests'' []]
     @ when_opt (showLoadingIndicator opts) [TrackEvent ''showLoadingIndicator'' []]
     @ when_opt (isFullScreen opts) [TrackEvent ''isFullScreen'' []]
     @ when_opt (tabSSO opts) [TrackEvent ''tabSSO'' []]"

definition install_events_after :: "ProjectOptions \<Rightarrow> ai_call list" where
  "install_events_after opts =
     when_opt (localization opts)
       [TrackEvent ''localization''
          [(''defaultLanguage'', str_or_empty (defaultLanguage opts)),
           (''additionalLanguage'', str_or_empty (additionalLanguage opts))]]
     @ [Flush]"

definition install :: "Env \<Rightarrow> State \<Rightarrow> result" where
  "install env st =
     (let opts = options st in
      if telemetry opts then
        bind_result (track (install_events_before opts) st) (\<lambda>st1.
          if truthy_bool (updateManifestVersion opts) then
            (case existingManifest opts of
               None \<Rightarrow> Threw st1
             | Some m \<Rightarrow>
                 track ([TrackEvent ''updateManifest''
                           [(''from'', Some (m_manifestVersion m)),
                            (''to'', manifestVersion opts)]]
                        @ install_events_after opts) st1)
          else track (install_events_after opts) st1)
      else Continue st)"

subsection \<open>A run of the generator\<close>

text \<open>
  The phases in the order the run loop calls them; \<^verbatim>\<open>configuring\<close>, \<^verbatim>\<open>default\<close>, \<^verbatim>\<open>conflicts\<close> are
  empty and \<^verbatim>\<open>end\<close> only logs. The generators composed in \<^verbatim>\<open>initializing\<close> are other files
  and are left out: a property of one phase below holds for every state the phase may start
  from, whatever they did to the options.
\<close>

definition run :: "Env \<Rightarrow> Args \<Rightarrow> Manifest option \<Rightarrow> Config \<Rightarrow> Operator \<Rightarrow> result" where
  "run env args mf cfg u =
     bind_result (initializing env (constructor env args mf cfg)) (\<lambda>st1.
     bind_result (prompting env u st1) (\<lambda>st2.
     bind_result (writing env st2) (\<lambda>st3.
     install env st3)))"

text \<open>
  The exit status of the process: the argument of \<^verbatim>\<open>process.exit\<close>, or 0 when the run loop
  ends by itself. The status after an uncaught exception is set by the caller of the generator.
\<close>

definition exit_code :: "result \<Rightarrow> nat option" where
  "exit_code r = (case r of Continue st \<Rightarrow> Some 0 | Exit n st \<Rightarrow> Some n | Threw st \<Rightarrow> None)"

definition final_state :: "result \<Rightarrow> State" where
  "final_state r = (case r of Continue st \<Rightarrow> st | Exit n st \<Rightarrow> st | Threw st \<Rightarrow> st)"

definition continues :: "result \<Rightarrow> bool" where
  "continues r = (case r of Continue st \<Rightarrow> True | Exit n st \<Rightarrow> False | Threw st \<Rightarrow> False)"

text \<open>A state without a telemetry client and without a recorded call.\<close>

definition quiet :: "State \<Rightarrow> bool" where
  "quiet st = (\<not> ai_setup st \<and> ai_calls st = [])"

section \<open>The editor command that triggers the generator\<close>

text \<open>
  The operator's interaction and the system around the command: the workspace folder
  (name and path), the entry picked in the quick pick, the folders returned by the open
  dialog, what is entered at the input box (\<open>None\<close> dismisses it), the folders that exist,
  the status \<^verbatim>\<open>Executer.executeCommand\<close> returns (\<open>None\<close> when it throws), whether
  \<^verbatim>\<open>writeFileSync\<close> succeeds on a path, the platform, and the helpers \<^verbatim>\<open>join\<close>,
  \<^verbatim>\<open>parseWinPath\<close> and \<^verbatim>\<open>Commands.showOutputChannel\<close>.
\<close>

datatype quick_pick = Browse | WorkspaceFolder | Dismissed

record Desk =
  wsFolder :: "(string \<times> string) option"
  selectedFolder :: quick_pick
  openDialog :: "string list option"
  entered :: "string option list"
  existsSync :: "string \<Rightarrow> bool"
  executeCommand :: "string \<Rightarrow> string \<Rightarrow> int option"
  writeFileSync_ok :: "string \<Rightarrow> bool"
  getPlatform :: string
  join :: "string \<Rightarrow> string \<Rightarrow> string"
  parseWinPath :: "string \<Rightarrow> string"
  showOutputChannel :: string

datatype effect =
    NotifyWarning string
  | NotifyErrorNoLog string
  | ExecuteCommand string string
  | WriteFileSync string string
  | OpenFolder string

definition PROJECT_FILE :: string where
  "PROJECT_FILE = ''project.pnp''"

definition getFolderPath :: "Desk \<Rightarrow> string option" where
  "getFolderPath d =
     (case selectedFolder d of
        Browse \<Rightarrow>
          (case openDialog d of
             None \<Rightarrow> None
           | Some folder \<Rightarrow> (case folder of [] \<Rightarrow> None | f # _ \<Rightarrow> Some f))
      | WorkspaceFolder \<Rightarrow> map_option snd (wsFolder d)
      | Dismissed \<Rightarrow> None)"

definition validateInput :: "Desk \<Rightarrow> string \<Rightarrow> string \<Rightarrow> string option" where
  "validateInput d folderPath v =
     (if v = [] then Some ''Solution name is required''
      else (let solutionPath = join d folderPath v in
            if existsSync d solutionPath
            then Some (''Folder with '' @ [CHR 0x22] @ v @ [CHR 0x22] @ '' already exists'')
            else None))"

text \<open>
  Modelled from the spec: the editor's input box \<^verbatim>\<open>window.showInputBox\<close>, which is not part
  of the repository. A validation failure is shown inline and the flow does not advance
  until it is resolved: the box returns the first entry its validator accepts, and nothing
  when the operator dismisses it.
\<close>

fun showInputBox :: "(string \<Rightarrow> string option) \<Rightarrow> string option list \<Rightarrow> string option" where
  "showInputBox validate [] = None"
| "showInputBox validate (None # rest) = None"
| "showInputBox validate (Some v # rest) =
     (case validate v of None \<Rightarrow> Some v | Some message \<Rightarrow> showInputBox validate rest)"

definition getSolutionName :: "Desk \<Rightarrow> string \<Rightarrow> string option" where
  "getSolutionName d folderPath = showInputBox (validateInput d folderPath) (entered d)"

definition createProjectFileAndOpen :: "Desk \<Rightarrow> string \<Rightarrow> string \<Rightarrow> effect list" where
  "createProjectFileAndOpen d folderPath content =
     (if writeFileSync_ok d (join d folderPath PROJECT_FILE) then
        [WriteFileSync (join d folderPath PROJECT_FILE) content,
         (if getPlatform d = ''windows'' then OpenFolder (parseWinPath d folderPath)
          else OpenFolder folderPath)]
      else [])"

definition yoCommand :: string where
  "yoCommand = ''yo teams --skip-install''"

definition more_details :: "Desk \<Rightarrow> string" where
  "more_details d = '' Check [output window](command:'' @ showOutputChannel d @ '') for more details.''"

definition createProject :: "Desk \<Rightarrow> effect list" where
  "createProject d =
     (let folderPath = getFolderPath d in
      if \<not> truthy_str folderPath
      then [NotifyWarning ''You must select the parent folder to create the project in'']
      else
        (case folderPath of
           None \<Rightarrow> []
         | Some fp \<Rightarrow>
             (let solutionName' = getSolutionName d fp in
              if \<not> truthy_str solutionName' then []
              else
                (case solutionName' of
                   None \<Rightarrow> []
                 | Some sn \<Rightarrow>
                     ExecuteCommand fp yoCommand #
                     (case executeCommand d fp yoCommand of
                        None \<Rightarrow> [NotifyErrorNoLog (''Error creating the project.'' @ more_details d)]
                      | Some result \<Rightarrow>
                          if result \<noteq> 0
                          then [NotifyErrorNoLog (''Failed to create the project.'' @ more_details d)]
                          else createProjectFileAndOpen d (join d fp sn) ''init'')))))"

section \<open>Concrete inputs\<close>

text \<open>
  An environment, command lines, manifests, stored configurations and operators on which
  the phases are evaluated below.
\<close>

definition env0 :: Env where
  "env0 =
     \<lparr>pkg_version = ''4.1.0'',
      YOTEAMS_TELEMETRY_OPTOUT = None,
      isSchemaVersionValid =
        (\<lambda>mf. case mf of None \<Rightarrow> True | Some m \<Rightarrow> m_manifestVersion m = ''1.13''),
      supportedManifestVersions =
        [\<lparr>v_manifestVersion = ''1.13'', v_hide = False, v_comment = None, v_default = True\<rparr>],
      supportsUpdateManifest = (\<lambda>target current. False),
      getManifestVersionFromValue = (\<lambda>v. Some v),
      camelCase = (\<lambda>s. case s of None \<Rightarrow> [] | Some n \<Rightarrow> n),
      uuid_source = 2024,
      getStorage = (\<lambda>root. \<lparr>generator_version = None, cfg_libraryName = None,
        cfg_useAzureAppInsights = None, cfg_unitTestsEnabled = None\<rparr>),
      getLibraryNameFromWebpackConfig = None,
      package_json_name = Some (Some ''contoso''),
      createCoreFilesUpdater = (\<lambda>v. None),
      fixFileNames = (\<lambda>t opts. t),
      generateManifest = (\<lambda>v opts. ''{}''),
      updateManifest = (\<lambda>v m. ''{}'')\<rparr>"

definition args0 :: Args where
  "args0 =
     \<lparr>arg_solutionName = None, arg_name = None, arg_developer = None,
      arg_manifestVersion = None, arg_quickScaffolding = None, arg_host = None,
      arg_showLoadingIndicator = None, arg_tabSSO = None, arg_telemetry = True\<rparr>"

definition cfg0 :: Config where
  "cfg0 =
     \<lparr>generator_version = None, cfg_libraryName = None, cfg_useAzureAppInsights = None,
      cfg_unitTestsEnabled = None\<rparr>"

definition manifest0 :: Manifest where
  "manifest0 =
     \<lparr>m_schema = Some ''https://developer.microsoft.com/json-schemas/teams/v1.13/MicrosoftTeams.schema.json'',
      m_manifestVersion = ''1.13'',
      m_name_short = ''Contoso App'',
      m_developer_name = ''Contoso'',
      m_developer_websiteUrl = ''https://contoso.azurewebsites.net''\<rparr>"

definition operator0 :: Operator where
  "operator0 =
     \<lparr>u_confirmedAdd = True,
      u_solutionName = ''fooApp'',
      u_whichFolder = ''current'',
      u_name = ''Foo App'',
      u_developer = ''Contoso'',
      u_updateManifestVersion = False,
      u_manifestVersion = ''1.13'',
      u_mpnId = [],
      u_parts = [''tab''],
      u_host = ''https://Foo.azurewebsites.net/'',
      u_unitTestsEnabled = False,
      u_lintingSupport = False,
      u_useAzureAppInsights = False,
      u_azureAppInsightsKey = ''00000000-0000-0000-0000-000000000000'',
      u_updateBuildSystem = True,
      u_showLoadingIndicator = False,
      u_isFullScreen = False,
      u_quickScaffolding = False\<rparr>"

text \<open>The state after the constructor of a new project, and the answers two operators give there.\<close>

definition state0 :: State where
  "state0 = constructor env0 args0 None cfg0"

definition answers0 :: Answers where
  "answers0 = prompt env0 state0 operator0"

definition answers_quick :: Answers where
  "answers_quick = prompt env0 state0 (operator0\<lparr>u_quickScaffolding := True\<rparr>)"

text \<open>
  The state after the constructor of an existing project, the answers of the operator there,
  who asks for the update of the core files, and the state his answers resolve to.
\<close>

definition state1 :: State where
  "state1 = constructor env0 args0 (Some manifest0) cfg0"

definition answers1 :: Answers where
  "answers1 = prompt env0 state1 operator0"


text \<open>The environment with the opt-out variable set.\<close>

definition env_optout :: Env where
  "env_optout = env0\<lparr>YOTEAMS_TELEMETRY_OPTOUT := Some ''1''\<rparr>"

text \<open>
  An operator of the editor command who picks the workspace folder \<^verbatim>\<open>/work\<close>, where a folder
  \<^verbatim>\<open>taken\<close> exists, and enters \<^verbatim>\<open>taken\<close>, then nothing, then \<^verbatim>\<open>fresh\<close>.
\<close>

definition desk0 :: Desk where
  "desk0 =
     \<lparr>wsFolder = Some (''work'', ''/work''),
      selectedFolder = WorkspaceFolder,
      openDialog = None,
      entered = [Some ''taken'', Some [], Some ''fresh''],
      existsSync = (\<lambda>p. p = ''/work/taken''),
      executeCommand = (\<lambda>folder command. Some 0),
      writeFileSync_ok = (\<lambda>p. True),
      getPlatform = ''linux'',
      join = (\<lambda>a b. a @ ''/'' @ b),
      parseWinPath = (\<lambda>p. p),
      showOutputChannel = ''teams.showOutputChannel''\<rparr>"

section \<open>Helper facts\<close>

lemmas ex_defs = env0_def args0_def cfg0_def operator0_def manifest0_def

lemmas js_defs = truthy_str_def truthy_bool_def or_str_def or_bool_def ask_def

lemma state0_simps:
  "existingManifest (options state0) = None" "solutionName (options state0) = None"
  "fs_ops state0 = []" "config state0 = cfg0" "telemetry (options state0)" "ai_setup state0"
  by (simp_all add: state0_def constructor_def Let_def ex_defs initial_options_def optout_def
      track_def)

lemma answers0_simps:
  "a_confirmedAdd answers0 = None" "a_host answers0 = Some ''https://Foo.azurewebsites.net/''"
  "a_quickScaffolding answers0 = Some False" "a_mpnId answers0 = Some []"
  "a_solutionName answers0 = Some ''fooApp''" "a_whichFolder answers0 = Some ''current''"
  by (simp_all add: answers0_def prompt_def state0_def constructor_def Let_def ex_defs
      initial_options_def js_defs optout_def track_def)

lemma answers_quick_simps:
  "a_confirmedAdd answers_quick = None"
  "a_host answers_quick = Some ''https://Foo.azurewebsites.net/''"
  "a_quickScaffolding answers_quick = Some True" "a_lintingSupport answers_quick = None"
  by (simp_all add: answers_quick_def prompt_def state0_def constructor_def Let_def ex_defs
      initial_options_def js_defs optout_def track_def)

lemma prompting_then_new:
  assumes "existingManifest (options st) = None" and "a_confirmedAdd answers \<noteq> Some False"
  shows "prompting_then env answers st =
    (case prompting_new env answers st of
       Continue st' \<Rightarrow> Continue (st'\<lparr>options := set_parts answers (options st')\<rparr>)
     | r \<Rightarrow> r)"
  using assms by (simp add: prompting_then_def)

lemma set_parts_fields [simp]:
  "lintingSupport (set_parts answers opts) = lintingSupport opts"
  "mpnId (set_parts answers opts) = mpnId opts"
  "host (set_parts answers opts) = host opts"
  "hostname (set_parts answers opts) = hostname opts"
  "namespace (set_parts answers opts) = namespace opts"
  "websitePrefix (set_parts answers opts) = websitePrefix opts"
  "id' (set_parts answers opts) = id' opts"
  "solutionName (set_parts answers opts) = solutionName opts"
  "libraryName (set_parts answers opts) = libraryName opts"
  "packageName (set_parts answers opts) = packageName opts"
  "developer (set_parts answers opts) = developer opts"
  "title (set_parts answers opts) = title opts"
  "existingManifest (set_parts answers opts) = existingManifest opts"
  "updateBuildSystem (set_parts answers opts) = updateBuildSystem opts"
  "updateManifestVersion (set_parts answers opts) = updateManifestVersion opts"
  "telemetry (set_parts answers opts) = telemetry opts"
  by (simp_all add: set_parts_def Let_def split: option.splits)

lemma set_parts_id'_update:
  "set_parts answers (opts\<lparr>id' := x\<rparr>) = (set_parts answers opts)\<lparr>id' := x\<rparr>"
  by (cases "a_parts answers") (simp_all add: set_parts_def)

lemma prompting_new_continues:
  assumes "a_host answers = Some h"
  shows "\<exists>s. prompting_new env answers st = Continue s"
  using assms by (simp add: prompting_new_def Let_def)

lemma hex_digit_inj:
  assumes "hex_digit a = hex_digit b" and "a < 16" and "b < 16"
  shows "a = b"
proof -
  have "distinct ''0123456789abcdef''" by simp
  then show ?thesis
    using assms unfolding hex_digit_def by (simp add: nth_eq_iff_index_eq)
qed

lemma hex_not_Nil: "hex n \<noteq> []"
  by (subst hex.simps) simp

lemma hex_inj:
  assumes "hex n = hex m"
  shows "n = m"
  using assms
proof (induction n arbitrary: m rule: hex.induct)
  case (1 n)
  show ?case
  proof (cases "n < 16")
    case True
    then have n: "hex n = [hex_digit n]" by (subst hex.simps) simp
    show ?thesis
    proof (cases "m < 16")
      case True
      then have "hex m = [hex_digit m]" by (subst hex.simps) simp
      then show ?thesis
        using n "1.prems" \<open>n < 16\<close> \<open>m < 16\<close> by (simp add: hex_digit_inj)
    next
      case False
      then have "hex m = hex (m div 16) @ [hex_digit (m mod 16)]" by (subst hex.simps) simp
      then show ?thesis
        using n "1.prems" hex_not_Nil [of "m div 16"] by simp
    qed
  next
    case False
    then have n: "hex n = hex (n div 16) @ [hex_digit (n mod 16)]" by (subst hex.simps) simp
    show ?thesis
    proof (cases "m < 16")
      case True
      then have "hex m = [hex_digit m]" by (subst hex.simps) simp
      then show ?thesis
        using n "1.prems" hex_not_Nil [of "n div 16"] by simp
    next
      case m: False
      then have "hex m = hex (m div 16) @ [hex_digit (m mod 16)]" by (subst hex.simps) simp
      then have eq: "hex (n div 16) = hex (m div 16)" "hex_digit (n mod 16) = hex_digit (m mod 16)"
        using n "1.prems" by simp_all
      have "n div 16 = m div 16"
        using "1.IH" [OF False eq(1)] .
      moreover have "n mod 16 = m mod 16"
        using eq(2) by (simp add: hex_digit_inj)
      ultimately show ?thesis
        by (metis div_mult_mod_eq)
    qed
  qed
qed

lemma prompting_new_id:
  assumes "prompting_new env answers st = Continue s"
  shows "id' (options s) = Some (hex (uuid_next st))" and "uuid_next s = Suc (uuid_next st)"
  using assms
  by (auto simp add: prompting_new_def Let_def uuid_def split: option.splits)

lemma prompting_new_source:
  assumes "a_host answers = Some h"
  shows "prompting_new env answers (st\<lparr>uuid_next := n\<rparr>) =
    (case prompting_new env answers st of
       Continue s \<Rightarrow>
         Continue (s\<lparr>options := (options s)\<lparr>id' := Some (hex n)\<rparr>, uuid_next := Suc n\<rparr>)
     | r \<Rightarrow> r)"
  using assms by (simp add: prompting_new_def Let_def uuid_def)

lemma prompting_then_source:
  assumes "existingManifest (options st) = None"
    and "a_confirmedAdd answers \<noteq> Some False"
    and "prompting_new env answers st = Continue s"
    and "a_host answers = Some h"
  shows "prompting_then env answers (st\<lparr>uuid_next := n\<rparr>) =
    Continue (s\<lparr>options := (set_parts answers (options s))\<lparr>id' := Some (hex n)\<rparr>,
                uuid_next := Suc n\<rparr>)"
  using assms
  by (simp add: prompting_then_def prompting_new_source [of answers h] set_parts_id'_update)

text \<open>
  The test on the partner id can never succeed: a string that is truthy is not empty. The
  resolved value is the answer itself, the empty string included.
\<close>

lemma mpnId_kept:
  assumes "existingManifest (options st) = None"
    and "a_confirmedAdd answers \<noteq> Some False"
    and "a_host answers = Some h"
  shows "\<exists>st'. prompting_then env answers st = Continue st' \<and> mpnId (options st') = a_mpnId answers"
  using assms
  by (auto simp add: prompting_then_new prompting_new_def Let_def truthy_str_def
      split: option.splits)

lemma host_Foo:
  "endsWith ''https://Foo.azurewebsites.net/'' ''/''"
  "substr ''https://Foo.azurewebsites.net/'' 0 29 = ''https://Foo.azurewebsites.net''"
  "indexOf ''https://Foo.azurewebsites.net'' ''://'' = 5"
  "indexOf ''https://Foo.azurewebsites.net'' ''.'' = 11"
  "indexOf ''https://Foo.azurewebsites.net'' ''azurewebsites.net'' = 12"
  "substring ''https://Foo.azurewebsites.net'' 8 None = ''Foo.azurewebsites.net''"
  "substring ''https://Foo.azurewebsites.net'' 8 (Some 11) = ''Foo''"
  "toLocaleLowerCase ''Foo.azurewebsites.net'' = ''foo.azurewebsites.net''"
  "split_on CHR ''.'' ''Foo.azurewebsites.net'' = [''Foo'', ''azurewebsites'', ''net'']"
  "toLocaleLowerCase ''net.azurewebsites.Foo'' = ''net.azurewebsites.foo''"
  by (simp_all add: endsWith_def substr_def substring_def toLocaleLowerCase_def lower_char_def)

lemma websitePrefix_Foo:
  assumes "existingManifest (options st) = None"
    and "a_confirmedAdd answers \<noteq> Some False"
    and "a_host answers = Some ''https://Foo.azurewebsites.net/''"
  shows "\<exists>st'. prompting_then env answers st = Continue st'
    \<and> websitePrefix (options st') = Some ''Foo''"
  using assms by (simp add: prompting_then_new prompting_new_def Let_def host_Foo)

subsection \<open>The phases of a run\<close>

lemma bind_result_simps [simp]:
  "bind_result (Continue st) f = f st"
  "bind_result (Exit n st) f = Exit n st"
  "bind_result (Threw st) f = Threw st"
  by (simp_all add: bind_result_def)

lemma exit_code_simps [simp]:
  "exit_code (Continue st) = Some 0"
  "exit_code (Exit n st) = Some n"
  "exit_code (Threw st) = None"
  by (simp_all add: exit_code_def)

lemma final_state_simps [simp]:
  "final_state (Continue st) = st"
  "final_state (Exit n st) = st"
  "final_state (Threw st) = st"
  by (simp_all add: final_state_def)

lemma continues_final:
  assumes "r = Continue st"
  shows "continues r" and "final_state r = st"
  using assms by (simp_all add: continues_def)

lemma track_setup:
  assumes "ai_setup st"
  shows "track cs st = Continue (st\<lparr>ai_calls := ai_calls st @ cs\<rparr>)"
  using assms by (simp add: track_def)

lemma track_no_client:
  assumes "\<not> ai_setup st"
  shows "track cs st = Threw st"
  using assms by (simp add: track_def)

lemma constructor_fields [simp]:
  "existingManifest (options (constructor env args mf cfg)) = mf"
  "config (constructor env args mf cfg) = cfg"
  "fs_ops (constructor env args mf cfg) = []"
  "telemetry (options (constructor env args mf cfg)) = arg_telemetry args"
  "updateManifestVersion (options (constructor env args mf cfg)) = None"
  "ai_setup (constructor env args mf cfg) = (arg_telemetry args \<and> \<not> optout env)"
  "uuid_next (constructor env args mf cfg) = uuid_source env"
  by (simp_all add: constructor_def Let_def initial_options_def)

lemma constructor_optout:
  assumes "optout env"
  shows "ai_calls (constructor env args mf cfg) = []"
  using assms by (simp add: constructor_def Let_def initial_options_def)


lemma initializing_valid:
  assumes "isSchemaVersionValid env (existingManifest (options st))"
  shows "initializing env st = Continue st"
  using assms by (simp add: initializing_def Let_def)


lemma prompt_existing:
  assumes "existingManifest (options st) = Some m"
  shows "a_confirmedAdd (prompt env st u) = Some (u_confirmedAdd u)"
    and "a_updateBuildSystem (prompt env st u) =
      (if (if truthy_str (generator_version (config st)) then generator_version (config st)
           else Some ''3.0.0'') \<noteq> Some (pkg_version env) \<and> u_confirmedAdd u
       then Some (u_updateBuildSystem u) else None)"
  using assms by (auto simp add: prompt_def Let_def ask_def truthy_str_def)

lemma prompt_new:
  assumes "existingManifest (options st) = None"
  shows "a_confirmedAdd (prompt env st u) = None"
    and "a_host (prompt env st u) = Some (u_host u)"
  using assms by (simp_all add: prompt_def Let_def ask_def)


lemma prompting_new_fields:
  assumes "existingManifest (options st) = None"
    and "a_confirmedAdd answers \<noteq> Some False"
    and "a_host answers = Some h"
  shows "\<exists>st'. prompting_then env answers st = Continue st'
    \<and> existingManifest (options st') = None
    \<and> updateManifestVersion (options st') = updateManifestVersion (options st)
    \<and> telemetry (options st') = telemetry (options st)
    \<and> ai_setup st' = ai_setup st"
  using assms by (simp add: prompting_then_new prompting_new_def Let_def)







lemma writing_new_continues:
  assumes "existingManifest (options st) = None"
  shows "\<exists>st'. writing env st = Continue st' \<and> options st' = options st
    \<and> ai_setup st' = ai_setup st"
  using assms
  by (simp add: writing_def writing_new_def writing_common_def Let_def write_ops_def)

lemma install_continues:
  assumes "existingManifest (options st) \<noteq> None
      \<or> \<not> truthy_bool (updateManifestVersion (options st))"
    and "telemetry (options st) \<longrightarrow> ai_setup st"
  shows "\<exists>st'. install env st = Continue st'"
  using assms by (auto simp add: install_def Let_def track_def)

lemma run_unfold:
  "run env args mf cfg u =
     bind_result (initializing env (constructor env args mf cfg)) (\<lambda>st1.
     bind_result (prompting env u st1) (\<lambda>st2.
     bind_result (writing env st2) (\<lambda>st3.
     install env st3)))"
  by (simp add: run_def)








lemma run_new_project:
  assumes "isSchemaVersionValid env None"
    and "arg_telemetry args \<longrightarrow> \<not> optout env"
  shows "\<exists>st'. run env args None cfg u = Continue st'"
proof -
  let ?st = "constructor env args None cfg"
  have init: "initializing env ?st = Continue ?st"
    using assms(1) by (simp add: initializing_valid)
  have n: "existingManifest (options ?st) = None" by simp
  obtain st2 where st2: "prompting env u ?st = Continue st2"
    "existingManifest (options st2) = None"
    "updateManifestVersion (options st2) = updateManifestVersion (options ?st)"
    "telemetry (options st2) = telemetry (options ?st)" "ai_setup st2 = ai_setup ?st"
    using prompting_new_fields [OF n, of "prompt env ?st u" "u_host u" env]
    unfolding prompting_def by (auto simp add: prompt_new [OF n])
  obtain st3 where st3: "writing env st2 = Continue st3" "options st3 = options st2"
    "ai_setup st3 = ai_setup st2"
    using writing_new_continues [OF st2(2)] by blast
  have "\<not> truthy_bool (updateManifestVersion (options st3))"
    using st3(2) st2(3) by (simp add: truthy_bool_def)
  moreover have "telemetry (options st3) \<longrightarrow> ai_setup st3"
    using st3(2,3) st2(4,5) assms(2) by simp
  ultimately obtain st4 where "install env st3 = Continue st4"
    using install_continues [of st3 env] by blast
  then have "run env args None cfg u = Continue st4"
    using init st2(1) st3(1) by (simp add: run_unfold)
  then show ?thesis by simp
qed

subsection \<open>A run without a telemetry client\<close>

text \<open>
  A state without a client and without a recorded call stays so through every phase,
  however the phase ends.
\<close>

lemma bind_result_quiet:
  assumes "quiet (final_state r)"
    and "\<And>st. quiet st \<Longrightarrow> quiet (final_state (f st))"
  shows "quiet (final_state (bind_result r f))"
  using assms by (cases r) simp_all

lemma track_quiet:
  assumes "quiet st"
  shows "track cs st = Threw st"
  using assms by (simp add: quiet_def track_def)

lemma constructor_quiet:
  assumes "optout env"
  shows "quiet (constructor env args mf cfg)"
  using assms by (simp add: quiet_def constructor_optout)

lemma initializing_quiet:
  assumes "quiet st"
  shows "quiet (final_state (initializing env st))"
  using assms by (simp add: initializing_def Let_def track_quiet)

lemma prompting_quiet:
  assumes "quiet st"
  shows "quiet (final_state (prompting env u st))"
  using assms
  by (auto simp add: prompting_def prompting_then_def prompting_new_def prompting_existing_def
      quiet_def Let_def split: option.splits)

lemma update_build_system_quiet:
  assumes "quiet st"
  shows "quiet (final_state (update_build_system env st))"
proof -
  have "quiet (write_ops ops st)" for ops
    using assms by (simp add: quiet_def write_ops_def)
  then show ?thesis
    using assms
    by (auto simp add: update_build_system_def Let_def track_quiet case_prod_beta
        split: option.splits)
qed

lemma writing_quiet:
  assumes "quiet st"
  shows "quiet (final_state (writing env st))"
proof (cases "existingManifest (options st)")
  case None
  then show ?thesis
    using assms
    by (simp add: writing_def writing_new_def writing_common_def quiet_def Let_def write_ops_def)
next
  case (Some m)
  show ?thesis
  proof (cases "truthy_bool (updateBuildSystem (options st))")
    case False
    then show ?thesis
      using assms Some
      by (simp add: writing_def writing_existing_def writing_common_def quiet_def Let_def
          write_ops_def)
  next
    case True
    have q: "quiet (final_state (update_build_system env st))"
      using assms by (rule update_build_system_quiet)
    show ?thesis
    proof (cases "update_build_system env st")
      case (Continue st1)
      then show ?thesis
        using q Some True
        by (simp add: writing_def writing_existing_def writing_common_def quiet_def Let_def
            write_ops_def)
    next
      case (Exit n st1)
      then show ?thesis
        using q Some True by (simp add: writing_def writing_existing_def)
    next
      case (Threw st1)
      then show ?thesis
        using q Some True by (simp add: writing_def writing_existing_def)
    qed
  qed
qed

lemma install_quiet:
  assumes "quiet st"
  shows "quiet (final_state (install env st))"
  using assms by (simp add: install_def Let_def track_quiet)

lemma run_quiet:
  assumes "optout env"
  shows "quiet (final_state (run env args mf cfg u))"
  unfolding run_unfold
  by (intro bind_result_quiet initializing_quiet prompting_quiet writing_quiet install_quiet
      constructor_quiet assms)

text \<open>
  With telemetry on and no client, the phases that report do not reach their exit: the
  exception of the missing client ends them first.
\<close>

lemma initializing_no_client:
  assumes "\<not> isSchemaVersionValid env (existingManifest (options st))"
    and "telemetry (options st)" and "\<not> ai_setup st"
  shows "initializing env st = Threw st"
  using assms by (simp add: initializing_def Let_def track_def)

lemma update_build_system_no_client:
  assumes "\<not> truthy_str (generator_version (config st))"
    and "telemetry (options st)" and "\<not> ai_setup st"
  shows "update_build_system env st = Threw st"
  using assms by (simp add: update_build_system_def Let_def track_def)


lemma install_no_client:
  assumes "telemetry (options st)" and "\<not> ai_setup st"
  shows "install env st = Threw st"
  using assms by (simp add: install_def Let_def track_def)

lemma run_new_project_no_client:
  assumes "isSchemaVersionValid env None" and "arg_telemetry args" and "optout env"
  shows "\<exists>st'. run env args None cfg u = Threw st'"
proof -
  let ?st = "constructor env args None cfg"
  have init: "initializing env ?st = Continue ?st"
    using assms(1) by (simp add: initializing_valid)
  have n: "existingManifest (options ?st) = None" by simp
  obtain st2 where st2: "prompting env u ?st = Continue st2"
    "existingManifest (options st2) = None"
    "telemetry (options st2) = telemetry (options ?st)" "ai_setup st2 = ai_setup ?st"
    using prompting_new_fields [OF n, of "prompt env ?st u" "u_host u" env]
    unfolding prompting_def by (auto simp add: prompt_new [OF n])
  obtain st3 where st3: "writing env st2 = Continue st3" "options st3 = options st2"
    "ai_setup st3 = ai_setup st2"
    using writing_new_continues [OF st2(2)] by blast
  have "install env st3 = Threw st3"
    using st3(2,3) st2(3,4) assms(2,3) by (simp add: install_no_client)
  then have "run env args None cfg u = Threw st3"
    using init st2(1) st3(1) by (simp add: run_unfold)
  then show ?thesis by simp
qed

subsection \<open>The concrete states\<close>

lemma state1_simps:
  "existingManifest (options state1) = Some manifest0" "config state1 = cfg0"
  "fs_ops state1 = []" "ai_setup state1"
  by (simp_all add: state1_def args0_def env0_def optout_def)

lemma answers1_simps:
  "a_confirmedAdd answers1 = Some True" "a_updateBuildSystem answers1 = Some True"
  by (simp_all add: answers1_def prompt_existing [OF state1_simps(1)] state1_simps
      operator0_def cfg0_def env0_def truthy_str_def)

lemma hostname_existing:
  assumes "existingManifest (options st) = Some m"
    and "a_confirmedAdd answers \<noteq> Some False"
    and "package_json_name env \<noteq> None"
  shows "\<exists>st'. prompting_then env answers st = Continue st' \<and> hostname (options st') = Some []"
  using assms
  by (auto simp add: prompting_then_def prompting_existing_def resolve_libraryName_def Let_def)


subsection \<open>The editor command\<close>

lemma showInputBox_accepts:
  assumes "showInputBox validate es = Some v"
  shows "validate v = None \<and> Some v \<in> set es"
  using assms
  by (induction validate es rule: showInputBox.induct) (auto split: option.splits)

lemma getSolutionName_accepts:
  assumes "getSolutionName d folderPath = Some sn"
  shows "sn \<noteq> [] \<and> \<not> existsSync d (join d folderPath sn) \<and> Some sn \<in> set (entered d)"
proof -
  have "validateInput d folderPath sn = None \<and> Some sn \<in> set (entered d)"
    using assms unfolding getSolutionName_def by (rule showInputBox_accepts)
  then show ?thesis
    by (auto simp add: validateInput_def Let_def split: if_splits)
qed

lemma createProject_executes:
  assumes "ExecuteCommand fp cmd \<in> set (createProject d)"
  shows "cmd = yoCommand \<and> getFolderPath d = Some fp \<and> getSolutionName d fp \<noteq> None"
  using assms
  by (auto simp add: createProject_def Let_def createProjectFileAndOpen_def truthy_str_def
      split: option.splits if_splits)

section \<open>Option resolution for a new project\<close>

text \<open>
  Claim C10. In a new-project run whose quick-scaffolding answer is true, option resolution
  succeeds and the resolved \<^verbatim>\<open>lintingSupport\<close> is true, whatever the linting answer is.
\<close>

theorem quick_scaffolding_forces_linting:
  assumes "existingManifest (options st) = None"
    and "a_confirmedAdd answers \<noteq> Some False"
    and "a_host answers = Some h"
    and "a_quickScaffolding answers = Some True"
  shows "\<exists>st'. prompting_then env answers st = Continue st'
    \<and> lintingSupport (options st') = Some True"
  using assms
  by (simp add: prompting_then_new prompting_new_def Let_def or_bool_def truthy_bool_def)

text \<open>
  The operator of \<open>answers_quick\<close> accepts quick scaffolding; the linting question is then
  not asked.
\<close>

theorem quick_scaffolding_forces_linting_witness:
  "existingManifest (options state0) = None
   \<and> a_confirmedAdd answers_quick \<noteq> Some False
   \<and> a_host answers_quick = Some ''https://Foo.azurewebsites.net/''
   \<and> a_quickScaffolding answers_quick = Some True
   \<and> a_lintingSupport answers_quick = None
   \<and> (\<exists>st'. prompting_then env0 answers_quick state0 = Continue st'
         \<and> lintingSupport (options st') = Some True)"
  using quick_scaffolding_forces_linting
    [of state0 answers_quick "''https://Foo.azurewebsites.net/''" env0]
  by (simp add: answers_quick_simps state0_simps)

text \<open>
  Claim C2. An empty partner-id answer should resolve to an undefined \<^verbatim>\<open>mpnId\<close>. The code
  keeps the empty string: an operator who leaves the question blank, which its validator
  accepts, ends with \<^verbatim>\<open>mpnId\<close> equal to the empty string.
\<close>

theorem empty_mpnId_kept:
  "validate_mpnId (u_mpnId operator0)
   \<and> a_mpnId answers0 = Some []
   \<and> continues (prompting env0 operator0 state0)
   \<and> mpnId (options (final_state (prompting env0 operator0 state0))) = Some []
   \<and> mpnId (options (final_state (prompting env0 operator0 state0))) \<noteq> None"
proof -
  have "validate_mpnId (u_mpnId operator0)"
    by (simp add: validate_mpnId_def operator0_def)
  moreover have "a_mpnId answers0 = Some []"
    by (rule answers0_simps(4))
  moreover obtain st' where "prompting env0 operator0 state0 = Continue st'"
    and "mpnId (options st') = Some []"
    using mpnId_kept [of state0 answers0 "''https://Foo.azurewebsites.net/''" env0]
    by (auto simp add: state0_simps answers0_simps prompting_def answers0_def [symmetric])
  ultimately show ?thesis
    by (simp add: continues_def final_state_def)
qed

text \<open>
  Claim C3, amended. For a new project with the host answer
  \<^verbatim>\<open>https://Foo.azurewebsites.net/\<close>, option resolution gives the host
  \<^verbatim>\<open>https://Foo.azurewebsites.net\<close>, the hostname \<^verbatim>\<open>foo.azurewebsites.net\<close>, the namespace
  \<^verbatim>\<open>net.azurewebsites.foo\<close> and the website prefix \<^verbatim>\<open>Foo\<close>, in the case of the host: the
  prefix is cut from the host, which is not lower-cased.
\<close>

theorem host_Foo_resolution:
  assumes "existingManifest (options st) = None"
    and "a_confirmedAdd answers \<noteq> Some False"
    and "a_host answers = Some ''https://Foo.azurewebsites.net/''"
  shows "\<exists>st'. prompting_then env answers st = Continue st'
    \<and> host (options st') = Some ''https://Foo.azurewebsites.net''
    \<and> hostname (options st') = Some ''foo.azurewebsites.net''
    \<and> namespace (options st') = Some ''net.azurewebsites.foo''
    \<and> websitePrefix (options st') = Some ''Foo''"
proof -
  have "prompting_then env answers st =
    (case prompting_new env answers st of
       Continue st' \<Rightarrow> Continue (st'\<lparr>options := set_parts answers (options st')\<rparr>)
     | r \<Rightarrow> r)"
    using assms(1,2) by (rule prompting_then_new)
  then show ?thesis
    using assms(3) by (simp add: prompting_new_def Let_def host_Foo)
qed

theorem host_Foo_resolution_witness:
  "existingManifest (options state0) = None
   \<and> a_confirmedAdd answers0 \<noteq> Some False
   \<and> a_host answers0 = Some ''https://Foo.azurewebsites.net/''
   \<and> (\<exists>st'. prompting_then env0 answers0 state0 = Continue st'
    \<and> host (options st') = Some ''https://Foo.azurewebsites.net''
    \<and> hostname (options st') = Some ''foo.azurewebsites.net''
    \<and> namespace (options st') = Some ''net.azurewebsites.foo''
    \<and> websitePrefix (options st') = Some ''Foo'')"
  using host_Foo_resolution [of state0 answers0 env0]
  by (simp add: state0_simps answers0_simps)

text \<open>The claim as it was stated, with the website prefix \<^verbatim>\<open>foo\<close>, fails on that input.\<close>

theorem host_Foo_websitePrefix_counterexample:
  "continues (prompting_then env0 answers0 state0)
   \<and> websitePrefix (options (final_state (prompting_then env0 answers0 state0))) = Some ''Foo''
   \<and> websitePrefix (options (final_state (prompting_then env0 answers0 state0))) \<noteq> Some ''foo''"
proof -
  obtain st' where "prompting_then env0 answers0 state0 = Continue st'"
    and "websitePrefix (options st') = Some ''Foo''"
    using websitePrefix_Foo [of state0 answers0 env0]
    by (auto simp add: state0_simps answers0_simps)
  then show ?thesis
    by (simp add: continues_def final_state_def)
qed

text \<open>
  Claim C6. For every solution name (so for those without path-unsafe characters), option
  resolution of a new project succeeds, the library name is lodash's \<^verbatim>\<open>camelCase\<close> of the
  solution name and the package name is the lower-cased library name. The solution name is
  the one given on the command line, or else the answer. Unless the files go to a sub
  folder, the configuration store holds the library name afterwards.
\<close>

theorem library_and_package_name:
  assumes "existingManifest (options st) = None"
    and "a_confirmedAdd answers \<noteq> Some False"
    and "a_host answers = Some h"
  shows "\<exists>st'. prompting_then env answers st = Continue st'
    \<and> solutionName (options st') = or_str (solutionName (options st)) (a_solutionName answers)
    \<and> libraryName (options st') = Some (camelCase env (solutionName (options st')))
    \<and> packageName (options st') = map_option toLocaleLowerCase (libraryName (options st'))
    \<and> (a_whichFolder answers \<noteq> Some ''subdir'' \<longrightarrow>
          cfg_libraryName (config st') = libraryName (options st'))"
  using assms by (simp add: prompting_then_new prompting_new_def Let_def)

theorem library_and_package_name_witness:
  "existingManifest (options state0) = None
   \<and> a_confirmedAdd answers0 \<noteq> Some False
   \<and> a_host answers0 = Some ''https://Foo.azurewebsites.net/''
   \<and> a_whichFolder answers0 \<noteq> Some ''subdir''
   \<and> (\<exists>st'. prompting_then env0 answers0 state0 = Continue st'
    \<and> solutionName (options st') = Some ''fooApp''
    \<and> libraryName (options st') = Some (camelCase env0 (Some ''fooApp''))
    \<and> packageName (options st') = Some ''fooapp''
    \<and> cfg_libraryName (config st') = Some ''fooApp'')"
  using library_and_package_name [of state0 answers0 "''https://Foo.azurewebsites.net/''" env0]
  by (auto simp add: state0_simps answers0_simps or_str_def truthy_str_def env0_def
      toLocaleLowerCase_def lower_char_def)

text \<open>
  Claim C8. The options of a new project are resolved twice with the same answers, the
  second time from the state of the first in which the identifier source has moved on, by
  the identifier of the first run and by \<open>k\<close> further ones. Both resolutions succeed; the two
  option records have different ids and agree on every other field.
\<close>

theorem rerun_differs_only_in_id:
  assumes "existingManifest (options st) = None"
    and "a_confirmedAdd answers \<noteq> Some False"
    and "a_host answers = Some h"
  shows "\<exists>st1 st2.
      prompting_then env answers st = Continue st1
    \<and> prompting_then env answers (st\<lparr>uuid_next := uuid_next st1 + k\<rparr>) = Continue st2
    \<and> id' (options st1) \<noteq> id' (options st2)
    \<and> options st2 = (options st1)\<lparr>id' := id' (options st2)\<rparr>
    \<and> config st2 = config st1"
proof -
  obtain s where s: "prompting_new env answers st = Continue s"
    using prompting_new_continues [OF assms(3)] by blast
  let ?r = "\<lambda>n. s\<lparr>options := (set_parts answers (options s))\<lparr>id' := Some (hex n)\<rparr>,
                    uuid_next := Suc n\<rparr>"
  let ?n = "uuid_next st"
  have "prompting_then env answers (st\<lparr>uuid_next := ?n\<rparr>) = Continue (?r ?n)"
    using assms(1,2) s assms(3) by (rule prompting_then_source)
  then have first: "prompting_then env answers st = Continue (?r ?n)"
    by simp
  have "prompting_then env answers (st\<lparr>uuid_next := Suc ?n + k\<rparr>) = Continue (?r (Suc ?n + k))"
    using assms(1,2) s assms(3) by (rule prompting_then_source)
  then have second:
    "prompting_then env answers (st\<lparr>uuid_next := uuid_next (?r ?n) + k\<rparr>)
      = Continue (?r (Suc ?n + k))"
    by simp
  have "hex ?n \<noteq> hex (Suc ?n + k)"
    using hex_inj [of ?n "Suc ?n + k"] by auto
  then have "id' (options (?r ?n)) \<noteq> id' (options (?r (Suc ?n + k)))"
    "options (?r (Suc ?n + k)) = (options (?r ?n))\<lparr>id' := id' (options (?r (Suc ?n + k)))\<rparr>"
    "config (?r (Suc ?n + k)) = config (?r ?n)"
    by simp_all
  with first second show ?thesis by blast
qed

theorem rerun_differs_only_in_id_witness:
  "existingManifest (options state0) = None
   \<and> a_confirmedAdd answers0 \<noteq> Some False
   \<and> a_host answers0 = Some ''https://Foo.azurewebsites.net/''
   \<and> (\<exists>st1 st2.
      prompting_then env0 answers0 state0 = Continue st1
    \<and> prompting_then env0 answers0 (state0\<lparr>uuid_next := uuid_next st1 + 0\<rparr>) = Continue st2
    \<and> id' (options st1) \<noteq> id' (options st2)
    \<and> options st2 = (options st1)\<lparr>id' := id' (options st2)\<rparr>)"
  using rerun_differs_only_in_id [of state0 answers0 "''https://Foo.azurewebsites.net/''" env0 0]
  by (simp only: state0_simps answers0_simps) blast

section \<open>Option resolution for an existing project\<close>

text \<open>
  Claim C5, amended. On an existing project whose library name can be found, option
  resolution succeeds; the developer name and the title are those of the manifest, the host
  is the manifest's developer website URL and the hostname is the empty string. The library
  name is the one of the webpack configuration if there is one, else the stored
  \<^verbatim>\<open>libraryName\<close> if there is one, else the name of \<^verbatim>\<open>package.json\<close>.
\<close>

theorem existing_project_resolution:
  assumes "existingManifest (options st) = Some m"
    and "a_confirmedAdd answers \<noteq> Some False"
    and "truthy_str (getLibraryNameFromWebpackConfig env) \<or> truthy_str (cfg_libraryName (config st))
         \<or> package_json_name env \<noteq> None"
  shows "\<exists>st'. prompting_then env answers st = Continue st'
    \<and> developer (options st') = Some (m_developer_name m)
    \<and> title (options st') = Some (m_name_short m)
    \<and> host (options st') = Some (m_developer_websiteUrl m)
    \<and> hostname (options st') = Some []
    \<and> (truthy_str (getLibraryNameFromWebpackConfig env) \<longrightarrow>
          libraryName (options st') = getLibraryNameFromWebpackConfig env)
    \<and> (\<not> truthy_str (getLibraryNameFromWebpackConfig env)
          \<and> truthy_str (cfg_libraryName (config st)) \<longrightarrow>
          libraryName (options st') = cfg_libraryName (config st))
    \<and> (\<not> truthy_str (getLibraryNameFromWebpackConfig env)
          \<and> \<not> truthy_str (cfg_libraryName (config st)) \<longrightarrow>
          Some (libraryName (options st')) = package_json_name env)"
  using assms
  by (auto simp add: prompting_then_def prompting_existing_def resolve_libraryName_def Let_def)

text \<open>
  The three sources of the library name, each at an input where it is the first that is
  found.
\<close>

theorem existing_project_resolution_witness:
  "existingManifest (options state1) = Some manifest0
   \<and> a_confirmedAdd answers1 \<noteq> Some False
   \<and> package_json_name env0 \<noteq> None
   \<and> (\<exists>st'. prompting_then env0 answers1 state1 = Continue st'
        \<and> developer (options st') = Some ''Contoso''
        \<and> title (options st') = Some ''Contoso App''
        \<and> host (options st') = Some ''https://contoso.azurewebsites.net''
        \<and> hostname (options st') = Some []
        \<and> libraryName (options st') = Some ''contoso'')
   \<and> (\<exists>st'. prompting_then (env0\<lparr>getLibraryNameFromWebpackConfig := Some ''fromWebpack''\<rparr>) answers1
          (state1\<lparr>config := cfg0\<lparr>cfg_libraryName := Some ''fromStore''\<rparr>\<rparr>) = Continue st'
        \<and> libraryName (options st') = Some ''fromWebpack'')
   \<and> (\<exists>st'. prompting_then env0 answers1
          (state1\<lparr>config := cfg0\<lparr>cfg_libraryName := Some ''fromStore''\<rparr>\<rparr>) = Continue st'
        \<and> libraryName (options st') = Some ''fromStore'')"
proof -
  have "\<exists>st'. prompting_then env0 answers1 state1 = Continue st'
        \<and> developer (options st') = Some ''Contoso''
        \<and> title (options st') = Some ''Contoso App''
        \<and> host (options st') = Some ''https://contoso.azurewebsites.net''
        \<and> hostname (options st') = Some []
        \<and> libraryName (options st') = Some ''contoso''"
    using existing_project_resolution [of state1 manifest0 answers1 env0]
    by (auto simp add: state1_simps answers1_simps env0_def cfg0_def manifest0_def truthy_str_def)
  moreover have "\<exists>st'. prompting_then (env0\<lparr>getLibraryNameFromWebpackConfig := Some ''fromWebpack''\<rparr>) answers1
          (state1\<lparr>config := cfg0\<lparr>cfg_libraryName := Some ''fromStore''\<rparr>\<rparr>) = Continue st'
        \<and> libraryName (options st') = Some ''fromWebpack''"
    using existing_project_resolution [of "state1\<lparr>config := cfg0\<lparr>cfg_libraryName := Some ''fromStore''\<rparr>\<rparr>"
        manifest0 answers1 "env0\<lparr>getLibraryNameFromWebpackConfig := Some ''fromWebpack''\<rparr>"]
    by (auto simp add: state1_simps answers1_simps truthy_str_def)
  moreover have "\<exists>st'. prompting_then env0 answers1
          (state1\<lparr>config := cfg0\<lparr>cfg_libraryName := Some ''fromStore''\<rparr>\<rparr>) = Continue st'
        \<and> libraryName (options st') = Some ''fromStore''"
    using existing_project_resolution [of "state1\<lparr>config := cfg0\<lparr>cfg_libraryName := Some ''fromStore''\<rparr>\<rparr>"
        manifest0 answers1 env0]
    by (auto simp add: state1_simps answers1_simps env0_def truthy_str_def)
  ultimately show ?thesis
    by (simp add: state1_simps answers1_simps env0_def)
qed

text \<open>
  The claim as it was stated takes the hostname from the manifest. On the manifest of
  \<^verbatim>\<open>contoso\<close> the resolved hostname is the empty string: it is neither the host name of the
  manifest's URL nor any string of the manifest.
\<close>

theorem existing_project_hostname_counterexample:
  "continues (prompting_then env0 answers1 state1)
   \<and> m_developer_websiteUrl manifest0 = ''https://contoso.azurewebsites.net''
   \<and> hostname (options (final_state (prompting_then env0 answers1 state1))) = Some []
   \<and> hostname (options (final_state (prompting_then env0 answers1 state1)))
       \<noteq> Some ''contoso.azurewebsites.net''
   \<and> hostname (options (final_state (prompting_then env0 answers1 state1)))
       \<noteq> Some (m_developer_websiteUrl manifest0)
   \<and> hostname (options (final_state (prompting_then env0 answers1 state1)))
       \<noteq> Some (m_developer_name manifest0)
   \<and> hostname (options (final_state (prompting_then env0 answers1 state1)))
       \<noteq> Some (m_name_short manifest0)
   \<and> hostname (options (final_state (prompting_then env0 answers1 state1)))
       \<noteq> Some (m_manifestVersion manifest0)
   \<and> hostname (options (final_state (prompting_then env0 answers1 state1)))
       \<noteq> m_schema manifest0"
proof -
  obtain st' where "prompting_then env0 answers1 state1 = Continue st'"
    and "hostname (options st') = Some []"
    using hostname_existing [of state1 manifest0 answers1 env0]
    by (auto simp add: state1_simps answers1_simps env0_def)
  then show ?thesis
    by (simp add: continues_def final_state_def manifest0_def)
qed

section \<open>The write phase and the exit codes\<close>





section \<open>Usage reporting\<close>

text \<open>
  Claim C7. When the opt-out variable is set to \<^verbatim>\<open>1\<close> or \<^verbatim>\<open>true\<close>, no call on the telemetry
  client is recorded at the end of the run, hence at no moment of it, and no client was set
  up, whatever the \<^verbatim>\<open>telemetry\<close> option, the manifest, the stored configuration and the
  operator's answers are, and however the run ends.
\<close>

theorem optout_no_telemetry:
  assumes "optout env"
  shows "ai_calls (final_state (run env args mf cfg u)) = []
    \<and> \<not> ai_setup (final_state (run env args mf cfg u))"
  using run_quiet [OF assms, of args mf cfg u] by (simp add: quiet_def)

text \<open>
  With the variable set, the run of a new project sends nothing when telemetry is off and
  completes; with telemetry on it sends nothing either, and ends in \<^verbatim>\<open>install\<close> by the
  exception of the missing client.
\<close>

theorem optout_no_telemetry_witness:
  "optout env_optout
   \<and> ai_calls (final_state (run env_optout args0 None cfg0 operator0)) = []
   \<and> \<not> continues (run env_optout args0 None cfg0 operator0)
   \<and> ai_calls (final_state (run env_optout (args0\<lparr>arg_telemetry := False\<rparr>) None cfg0 operator0)) = []
   \<and> continues (run env_optout (args0\<lparr>arg_telemetry := False\<rparr>) None cfg0 operator0)"
proof -
  have o: "optout env_optout"
    by (simp add: env_optout_def optout_def)
  have v: "isSchemaVersionValid env_optout None"
    by (simp add: env_optout_def env0_def)
  have "\<exists>st'. run env_optout args0 None cfg0 operator0 = Threw st'"
    using v _ o by (rule run_new_project_no_client) (simp add: args0_def)
  then have "\<not> continues (run env_optout args0 None cfg0 operator0)"
    by (auto simp add: continues_def)
  moreover have "\<exists>st'. run env_optout (args0\<lparr>arg_telemetry := False\<rparr>) None cfg0 operator0
      = Continue st'"
    using v by (rule run_new_project) simp
  then have "continues (run env_optout (args0\<lparr>arg_telemetry := False\<rparr>) None cfg0 operator0)"
    by (auto simp add: continues_def)
  ultimately show ?thesis
    using o optout_no_telemetry [OF o, of args0 None cfg0 operator0]
      optout_no_telemetry [OF o, of "args0\<lparr>arg_telemetry := False\<rparr>" None cfg0 operator0]
    by simp
qed

section \<open>The solution name of the editor command\<close>

text \<open>
  Claim C9. The validator of the input box rejects every name whose folder exists under the
  chosen parent folder. When the command runs the generator, it does so in the chosen
  folder, with the fixed command line, after the input box returned a name the operator
  entered that is not empty and whose folder does not exist; when every name the operator
  enters has an existing folder, the generator is not run.
\<close>

theorem colliding_name_never_scaffolded:
  "(existsSync d (join d folderPath v) \<longrightarrow> validateInput d folderPath v \<noteq> None)
   \<and> (ExecuteCommand fp cmd \<in> set (createProject d) \<longrightarrow>
        cmd = yoCommand \<and> getFolderPath d = Some fp
        \<and> (\<exists>sn. getSolutionName d fp = Some sn \<and> Some sn \<in> set (entered d)
              \<and> sn \<noteq> [] \<and> \<not> existsSync d (join d fp sn)))
   \<and> ((\<forall>e \<in> set (entered d). \<forall>sn. e = Some sn \<longrightarrow> existsSync d (join d fp sn)) \<longrightarrow>
        ExecuteCommand fp cmd \<notin> set (createProject d))"
proof (intro conjI impI)
  assume "existsSync d (join d folderPath v)"
  then show "validateInput d folderPath v \<noteq> None"
    by (simp add: validateInput_def Let_def)
next
  assume ex: "ExecuteCommand fp cmd \<in> set (createProject d)"
  from createProject_executes [OF ex] show "cmd = yoCommand" by simp
  from createProject_executes [OF ex] show "getFolderPath d = Some fp" by simp
  from createProject_executes [OF ex] obtain sn where "getSolutionName d fp = Some sn" by auto
  then show "\<exists>sn. getSolutionName d fp = Some sn \<and> Some sn \<in> set (entered d)
      \<and> sn \<noteq> [] \<and> \<not> existsSync d (join d fp sn)"
    using getSolutionName_accepts [of d fp sn] by auto
next
  assume all: "\<forall>e \<in> set (entered d). \<forall>sn. e = Some sn \<longrightarrow> existsSync d (join d fp sn)"
  show "ExecuteCommand fp cmd \<notin> set (createProject d)"
  proof
    assume ex: "ExecuteCommand fp cmd \<in> set (createProject d)"
    from createProject_executes [OF ex] obtain sn where sn: "getSolutionName d fp = Some sn"
      by auto
    from getSolutionName_accepts [OF sn] all show False by auto
  qed
qed

text \<open>
  On \<open>desk0\<close> the name \<^verbatim>\<open>taken\<close> is rejected and the generator runs once \<^verbatim>\<open>fresh\<close> is
  entered; an operator who only enters \<^verbatim>\<open>taken\<close> and gives up does not run it.
\<close>

theorem colliding_name_never_scaffolded_witness:
  "existsSync desk0 (join desk0 ''/work'' ''taken'')
   \<and> validateInput desk0 ''/work'' ''taken'' \<noteq> None
   \<and> ExecuteCommand ''/work'' yoCommand \<in> set (createProject desk0)
   \<and> getSolutionName desk0 ''/work'' = Some ''fresh''
   \<and> \<not> existsSync desk0 (join desk0 ''/work'' ''fresh'')
   \<and> ExecuteCommand ''/work'' yoCommand
       \<notin> set (createProject (desk0\<lparr>entered := [Some ''taken'', Some ''taken'', None]\<rparr>))"
proof -
  have e: "existsSync desk0 (join desk0 ''/work'' ''taken'')"
    by (simp add: desk0_def)
  have "validateInput desk0 ''/work'' ''taken'' \<noteq> None"
    using e colliding_name_never_scaffolded
      [where d = desk0 and folderPath = "''/work''" and v = "''taken''"]
    by blast
  moreover have x: "ExecuteCommand ''/work'' yoCommand \<in> set (createProject desk0)"
    by (simp add: createProject_def getFolderPath_def getSolutionName_def validateInput_def
        desk0_def Let_def truthy_str_def)
  moreover have "getSolutionName desk0 ''/work'' = Some ''fresh''"
    by (simp add: getSolutionName_def validateInput_def desk0_def Let_def)
  moreover have "\<not> existsSync desk0 (join desk0 ''/work'' ''fresh'')"
    using x colliding_name_never_scaffolded
      [where d = desk0 and fp = "''/work''" and cmd = yoCommand]
    by (auto simp add: getSolutionName_def validateInput_def desk0_def Let_def)
  moreover have "ExecuteCommand ''/work'' yoCommand
       \<notin> set (createProject (desk0\<lparr>entered := [Some ''taken'', Some ''taken'', None]\<rparr>))"
    using colliding_name_never_scaffolded
      [where d = "desk0\<lparr>entered := [Some ''taken'', Some ''taken'', None]\<rparr>"
        and fp = "''/work''" and cmd = yoCommand]
    by (simp add: desk0_def)
  ultimately show ?thesis using e by blast
qed

end
